theory Spec2Isabelle
  imports Main
begin

section \<open>Python values, exceptions and the operations app.py performs on them\<close>

text \<open>
  The responses of the remote service are untyped for app.py: it probes them with attribute
  reads, subscripts and calls and swallows the exceptions. They are modelled by a datatype of
  plain Python values. A \<open>str\<close> is the list of its code points, restricted to the code points
  below 256 (one \<open>char\<close> each); \<open>bytes\<close> and \<open>bytearray\<close> are lists of bytes. An object is
  the association list of its instance attributes; a bound method is the outcome of calling
  it (the value it returns or the exception it raises), whatever the arguments. The
  exceptions are those derived from \<open>Exception\<close>, which \<open>except Exception\<close> catches;
  \<open>KeyboardInterrupt\<close> and the like are outside the model.
\<close>

datatype exn = AttributeError | TypeError | KeyError | IndexError | OtherError string

datatype pykey = KInt int | KStr string

datatype pyval =
    PNone
  | PBool bool
  | PInt int
  | PStr string
  | PBytes string
  | PByteArray string
  | PList "pyval list"
  | PTuple "pyval list"
  | PDict "(pykey \<times> pyval) list"
  | PObj "(string \<times> pyval) list"
  | PMethod "exn + pyval"

text \<open>Sequencing of fallible steps, and \<open>try: body except Exception: handler\<close>.\<close>

definition and_then :: "exn + 'a \<Rightarrow> ('a \<Rightarrow> exn + 'b) \<Rightarrow> exn + 'b" where
  "and_then r f = (case r of Inl e \<Rightarrow> Inl e | Inr v \<Rightarrow> f v)"

definition try_except :: "exn + 'a \<Rightarrow> exn + 'a \<Rightarrow> exn + 'a" where
  "try_except body handler = (case body of Inl e \<Rightarrow> handler | Inr v \<Rightarrow> Inr v)"

text \<open>Truth value of a Python value, as \<open>if x:\<close>, \<open>x or y\<close> and \<open>not x\<close> test it.\<close>

fun truthy :: "pyval \<Rightarrow> bool" where
  "truthy PNone = False"
| "truthy (PBool b) = b"
| "truthy (PInt i) = (i \<noteq> 0)"
| "truthy (PStr s) = (s \<noteq> [])"
| "truthy (PBytes b) = (b \<noteq> [])"
| "truthy (PByteArray b) = (b \<noteq> [])"
| "truthy (PList xs) = (xs \<noteq> [])"
| "truthy (PTuple xs) = (xs \<noteq> [])"
| "truthy (PDict d) = (d \<noteq> [])"
| "truthy (PObj a) = True"
| "truthy (PMethod r) = True"

text \<open>
  \<open>x.name\<close> for the attribute names app.py reads (\<open>choices\<close>, \<open>message\<close>, \<open>content\<close>,
  \<open>text\<close>, \<open>read\<close>): the built-in types have none of them, an object has those it lists.
\<close>

fun get_attr :: "pyval \<Rightarrow> string \<Rightarrow> exn + pyval" where
  "get_attr (PObj attrs) name =
     (case map_of attrs name of None \<Rightarrow> Inl AttributeError | Some v \<Rightarrow> Inr v)"
| "get_attr x name = Inl AttributeError"

text \<open>\<open>hasattr(x, name)\<close> and \<open>getattr(x, name, default)\<close>: an AttributeError is the answer
  "absent", any other exception propagates.\<close>

definition hasattr :: "pyval \<Rightarrow> string \<Rightarrow> exn + bool" where
  "hasattr x name =
     (case get_attr x name of
        Inr v \<Rightarrow> Inr True
      | Inl AttributeError \<Rightarrow> Inr False
      | Inl e \<Rightarrow> Inl e)"

definition getattr_default :: "pyval \<Rightarrow> string \<Rightarrow> pyval \<Rightarrow> exn + pyval" where
  "getattr_default x name d =
     (case get_attr x name of
        Inr v \<Rightarrow> Inr v
      | Inl AttributeError \<Rightarrow> Inr d
      | Inl e \<Rightarrow> Inl e)"

text \<open>\<open>xs[i]\<close> on a sequence of length \<open>n\<close>: the positions are \<open>0\<close> to \<open>n - 1\<close>, and
  \<open>-n\<close> to \<open>-1\<close> name the same elements from the end; any other integer raises IndexError.\<close>

definition seq_index :: "'a list \<Rightarrow> int \<Rightarrow> exn + 'a" where
  "seq_index xs i =
     (if 0 \<le> i \<and> i < int (length xs) then Inr (xs ! nat i)
      else if - int (length xs) \<le> i \<and> i < 0 then Inr (xs ! nat (int (length xs) + i))
      else Inl IndexError)"

text \<open>\<open>x[k]\<close>: sequences take integers, a dict takes a key it holds, the rest is not
  subscriptable.\<close>

fun get_item :: "pyval \<Rightarrow> pykey \<Rightarrow> exn + pyval" where
  "get_item (PList xs) (KInt i) = seq_index xs i"
| "get_item (PList xs) (KStr s) = Inl TypeError"
| "get_item (PTuple xs) (KInt i) = seq_index xs i"
| "get_item (PTuple xs) (KStr s) = Inl TypeError"
| "get_item (PStr s) (KInt i) = and_then (seq_index s i) (\<lambda>c. Inr (PStr [c]))"
| "get_item (PStr s) (KStr k) = Inl TypeError"
| "get_item (PBytes b) (KInt i) = and_then (seq_index b i) (\<lambda>c. Inr (PInt (of_char c)))"
| "get_item (PBytes b) (KStr k) = Inl TypeError"
| "get_item (PByteArray b) (KInt i) = and_then (seq_index b i) (\<lambda>c. Inr (PInt (of_char c)))"
| "get_item (PByteArray b) (KStr k) = Inl TypeError"
| "get_item (PDict d) k = (case map_of d k of None \<Rightarrow> Inl KeyError | Some v \<Rightarrow> Inr v)"
| "get_item x k = Inl TypeError"

text \<open>\<open>f()\<close>: only a method is callable here.\<close>

fun call :: "pyval \<Rightarrow> exn + pyval" where
  "call (PMethod r) = r"
| "call x = Inl TypeError"

text \<open>\<open>x.get(k)\<close>: the built-in of a dict returns None for a missing key; an object needs an
  attribute \<open>get\<close> that is callable; no other built-in type has \<open>get\<close>.\<close>

fun call_get :: "pyval \<Rightarrow> pykey \<Rightarrow> exn + pyval" where
  "call_get (PDict d) k = Inr (case map_of d k of None \<Rightarrow> PNone | Some v \<Rightarrow> v)"
| "call_get (PObj attrs) k = and_then (get_attr (PObj attrs) ''get'') call"
| "call_get x k = Inl AttributeError"

section \<open>The response normalizers (app.py, lines 35 to 79)\<close>

text \<open>The three access paths of \<open>safe_get_assistant_text\<close>, as the source writes them.\<close>

definition attr_path :: "pyval \<Rightarrow> exn + pyval" where
  \<comment> \<open>\<open>response.choices[0].message.content\<close>\<close>
  "attr_path response =
     and_then (and_then (and_then (get_attr response ''choices'')
       (\<lambda>c. get_item c (KInt 0)))
       (\<lambda>x. get_attr x ''message''))
       (\<lambda>m. get_attr m ''content'')"

definition key_path :: "pyval \<Rightarrow> exn + pyval" where
  \<comment> \<open>\<open>response.choices[0].message["content"]\<close>\<close>
  "key_path response =
     and_then (and_then (and_then (get_attr response ''choices'')
       (\<lambda>c. get_item c (KInt 0)))
       (\<lambda>x. get_attr x ''message''))
       (\<lambda>m. get_item m (KStr ''content''))"

definition index_path :: "pyval \<Rightarrow> exn + pyval" where
  \<comment> \<open>\<open>response.choices[0]["message"]["content"]\<close>\<close>
  "index_path response =
     and_then (and_then (and_then (get_attr response ''choices'')
       (\<lambda>c. get_item c (KInt 0)))
       (\<lambda>x. get_item x (KStr ''message'')))
       (\<lambda>m. get_item m (KStr ''content''))"

text \<open>\<open>str(response)\<close> is a parameter: the text Python prints for a value, or the
  exception that the value's \<open>__str__\<close> raises. Line 52 stands in the innermost handler with
  no \<open>try\<close> around it, so that exception leaves the function.\<close>

definition safe_get_assistant_text :: "(pyval \<Rightarrow> exn + string) \<Rightarrow> pyval \<Rightarrow> exn + pyval" where
  "safe_get_assistant_text str_of response =
     try_except (attr_path response)
       (try_except (key_path response)
         (try_except (index_path response)
           (and_then (str_of response) (\<lambda>text. Inr (PStr text)))))"

definition safe_get_transcription_text :: "pyval \<Rightarrow> exn + pyval" where
  \<comment> \<open>\<open>getattr(transcription, "text", None) or transcription.get("text")\<close>\<close>
  "safe_get_transcription_text transcription =
     try_except
       (and_then (getattr_default transcription ''text'' PNone)
          (\<lambda>a. if truthy a then Inr a else call_get transcription (KStr ''text'')))
       (Inr PNone)"

text \<open>The loop \<open>for k in ("audio", "data", "content")\<close> of \<open>safe_get_audio_bytes\<close>: the value
  of the first key the dict holds, or no return at all.\<close>

fun first_present :: "(pykey \<times> pyval) list \<Rightarrow> string list \<Rightarrow> pyval option" where
  "first_present d [] = None"
| "first_present d (k # ks) =
     (case map_of d (KStr k) of Some v \<Rightarrow> Some v | None \<Rightarrow> first_present d ks)"

text \<open>The \<open>try\<close> body of \<open>safe_get_audio_bytes\<close>: \<open>Some v\<close> is a \<open>return v\<close>, \<open>None\<close> is
  reaching the end of the body.\<close>

definition audio_bytes_body :: "pyval \<Rightarrow> exn + pyval option" where
  "audio_bytes_body audio_response =
     and_then (hasattr audio_response ''read'') (\<lambda>has_read.
       if has_read then
         and_then (and_then (get_attr audio_response ''read'') call) (\<lambda>v. Inr (Some v))
       else and_then (hasattr audio_response ''content'') (\<lambda>has_content.
         if has_content then
           and_then (get_attr audio_response ''content'') (\<lambda>v. Inr (Some v))
         else (case audio_response of
                 PBytes b \<Rightarrow> Inr (Some (PBytes b))
               | PByteArray b \<Rightarrow> Inr (Some (PBytes b))
               | PDict d \<Rightarrow> Inr (first_present d [''audio'', ''data'', ''content''])
               | _ \<Rightarrow> Inr None)))"

definition safe_get_audio_bytes :: "pyval \<Rightarrow> exn + pyval" where
  "safe_get_audio_bytes audio_response =
     (case audio_bytes_body audio_response of
        Inr (Some v) \<Rightarrow> Inr v
      | Inr None \<Rightarrow> Inr PNone
      | Inl e \<Rightarrow> Inr PNone)"

section \<open>Strings, the credential checks and the voice map\<close>

text \<open>\<open>str.strip()\<close> removes the leading and trailing characters for which \<open>isspace()\<close>
  holds: among the code points below 256 these are 9 to 13, 28 to 32, 133 and 160.\<close>

definition isspace :: "char \<Rightarrow> bool" where
  "isspace c = ((of_char c :: nat) \<in> {9, 10, 11, 12, 13, 28, 29, 30, 31, 32, 133, 160})"

definition strip :: "string \<Rightarrow> string" where
  "strip s = rev (dropWhile isspace (rev (dropWhile isspace s)))"

definition startswith :: "string \<Rightarrow> string \<Rightarrow> bool" where
  "startswith s p = (take (length p) s = p)"

text \<open>\<open>a or b\<close> on two strings.\<close>

definition or_str :: "string \<Rightarrow> string \<Rightarrow> string" where
  "or_str a b = (if a \<noteq> [] then a else b)"

text \<open>The sidebar (lines 16 to 22) reports on the format of the key; it stops nothing.\<close>

datatype sidebar_report = KeyLooksGood | InvalidKeyFormat | EnterYourKey

definition sidebar_check :: "string \<Rightarrow> sidebar_report" where
  "sidebar_check api_key =
     (if api_key \<noteq> [] \<and> startswith api_key ''sk-'' \<and> length api_key > 40 then KeyLooksGood
      else if api_key \<noteq> [] then InvalidKeyFormat
      else EnterYourKey)"

text \<open>The gate of the submit handler (line 132): the condition under which it warns and does
  nothing else.\<close>

definition key_rejected :: "string \<Rightarrow> bool" where
  "key_rejected api_key = (api_key = [] \<or> \<not> startswith api_key ''sk-'')"

text \<open>The six labels of the select box (lines 102 to 112).\<close>

definition voice_styles :: "string list" where
  "voice_styles =
     [''Dramatic Stage Voice'', ''Warm, Noble Bard'', ''Aged Shakespeare'',
      ''Playful Jester'', ''Royal Court Voice'', ''Whispered Bard'']"

text \<open>
  \<open>voice_map\<close> (lines 194 to 200): the dict display is followed by a comma, so the name is
  bound to a tuple of one element, the dict.
\<close>

definition voice_map :: "(string \<times> string) list list" where
  "voice_map =
     [[(''Dramatic Stage Voice'', ''alloy''),
       (''Warm, Noble Bard'', ''verse''),
       (''Aged Shakespeare'', ''sage''),
       (''Playful Jester'', ''spark''),
       (''Royal Court Voice'', ''duet''),
       (''Whispered Bard'', ''whisper'')]]"

text \<open>\<open>t[k]\<close> on a tuple: an integer indexes it, a string raises TypeError.\<close>

fun tuple_item :: "'a list \<Rightarrow> pykey \<Rightarrow> exn + 'a" where
  "tuple_item xs (KInt i) = seq_index xs i"
| "tuple_item xs (KStr s) = Inl TypeError"

definition chosen_voice :: "string \<Rightarrow> exn + (string \<times> string) list" where
  \<comment> \<open>line 201: \<open>voice_map[voice_style]\<close>\<close>
  "chosen_voice voice_style = tuple_item voice_map (KStr voice_style)"

section \<open>The conversation and the submit handler (lines 127 to 219)\<close>

datatype role = System | User | Assistant

record message =
  role :: role
  content :: pyval

definition SYSTEM_PROMPT :: string where
  "SYSTEM_PROMPT =
     CHR 0x0A # ''You are William Shakespeare, the exceptionally brilliant and literary genius of the English drama.''
     @ CHR 0x0A # ''Answer questions about your plays, sonnets, and characters using wit, sharp humour, confidence,''
     @ CHR 0x0A # ''and deep literary insight. Focus strictly on Shakespearean literature.''
     @ [CHR 0x0A]"

definition is_system :: "message \<Rightarrow> bool" where
  "is_system m = (role m = System)"

text \<open>Lines 137 to 139: the system prompt goes to the front unless some message has the role
  system.\<close>

definition ensure_system_prompt :: "message list \<Rightarrow> message list" where
  "ensure_system_prompt ms =
     (if \<not> list_ex is_system ms
      then \<lparr>role = System, content = PStr SYSTEM_PROMPT\<rparr> # ms
      else ms)"

definition append_message :: "role \<Rightarrow> pyval \<Rightarrow> message list \<Rightarrow> message list" where
  "append_message r c ms = ms @ [\<lparr>role = r, content = c\<rparr>]"

text \<open>Lines 127 to 129: the Clear button.\<close>

definition clear :: "message list \<Rightarrow> message list" where
  "clear ms = []"

text \<open>What the page shows, and the calls that leave for the remote service. Two characters
  of the source's messages lie beyond code point 255 and are written in ASCII here: the
  ellipsis of line 150 as three dots, the apostrophe of line 191 as the ASCII one.\<close>

datatype event =
    StInfo string
  | StWarning string
  | StError string
  | StSuccess string
  | StWrite pyval
  | StMarkdown string
  | StAudio pyval
  | StStop

datatype remote_call =
    Transcription string
  | ChatCompletion "message list"
  | Speech "(string \<times> string) list" pyval

text \<open>
  The inputs of one submission, and the world it runs in: how Python prints a value and an
  exception, and what each remote call answers (a response, or an exception raised).
\<close>

record submission =
  api_key :: string
  user_question :: string
  voice_file :: "string option"
  voice_style :: string

record env =
  str_of :: "pyval \<Rightarrow> exn + string"
  str_exn :: "exn \<Rightarrow> string"
  transcribe :: "string \<Rightarrow> exn + pyval"
  chat :: "message list \<Rightarrow> exn + pyval"
  speech :: "(string \<times> string) list \<Rightarrow> pyval \<Rightarrow> exn + pyval"

record run =
  messages :: "message list"
  events :: "event list"
  calls :: "remote_call list"

definition emit :: "event \<Rightarrow> run \<Rightarrow> run" where
  "emit e r = r\<lparr>events := events r @ [e]\<rparr>"

definition issue :: "remote_call \<Rightarrow> run \<Rightarrow> run" where
  "issue c r = r\<lparr>calls := calls r @ [c]\<rparr>"

text \<open>
  Lines 144 to 168, the uploaded file: the \<open>try\<close> body either sets the final question to the
  transcript or warns; the \<open>except\<close> branch reports and keeps the question. Line 158 assigns
  the transcript before line 159 formats it: when the formatting raises, the \<open>except\<close> branch
  reports and the transcript stays the final question.
\<close>

definition transcription_step :: "env \<Rightarrow> string \<Rightarrow> pyval \<times> run \<Rightarrow> pyval \<times> run" where
  "transcription_step w blob st =
     (let (final_question, r) = st;
          r1 = issue (Transcription blob) (emit (StInfo ''Transcribing audio...'') r)
      in case and_then (transcribe w blob) safe_get_transcription_text of
           Inr trans_text \<Rightarrow>
             if truthy trans_text
             then (case str_of w trans_text of
                     Inr shown \<Rightarrow> (trans_text, emit (StMarkdown (''**Transcribed:** '' @ shown)) r1)
                   | Inl e \<Rightarrow>
                       (trans_text, emit (StError (''Transcription failed: '' @ str_exn w e)) r1))
             else (final_question,
                   emit (StWarning ''Could not extract transcription text; using typed input if available.'') r1)
         | Inl e \<Rightarrow>
             (final_question, emit (StError (''Transcription failed: '' @ str_exn w e)) r1))"

text \<open>
  Lines 203 to 216, the inner \<open>try\<close>. Line 210 of the source stands one level to the left of
  the block it belongs to, at the column of the \<open>try\<close> itself: as written, Python rejects the
  file with a syntax error and nothing runs. The line is read here as the statement of the
  \<open>try\<close> body that its neighbours and the \<open>except\<close> of line 215 make it.
\<close>

definition speech_step :: "env \<Rightarrow> (string \<times> string) list \<Rightarrow> pyval \<Rightarrow> run \<Rightarrow> run" where
  "speech_step w voice assistant_reply r =
     (let r1 = issue (Speech voice assistant_reply) r
      in case and_then (speech w voice assistant_reply) safe_get_audio_bytes of
           Inr audio_bytes \<Rightarrow>
             if truthy audio_bytes then emit (StAudio audio_bytes) r1
             else emit (StWarning ''Audio generation returned no bytes; reply shown as text only.'') r1
         | Inl e \<Rightarrow> emit (StWarning (''TTS generation failed: '' @ str_exn w e)) r1)"

text \<open>Lines 178 to 219, the outer \<open>try\<close>: whatever was appended or shown before an exception
  stays; the \<open>except\<close> branch adds the error.\<close>

definition request_failed :: "env \<Rightarrow> exn \<Rightarrow> run \<Rightarrow> run" where
  "request_failed w e r = emit (StError (''OpenAI request failed: '' @ str_exn w e)) r"

definition chat_step :: "env \<Rightarrow> string \<Rightarrow> run \<Rightarrow> run" where
  "chat_step w style r =
     (let r1 = issue (ChatCompletion (messages r)) r
      in case and_then (chat w (messages r)) (safe_get_assistant_text (str_of w)) of
           Inl e \<Rightarrow> request_failed w e r1
         | Inr assistant_reply \<Rightarrow>
             (let r2 = r1\<lparr>messages := append_message Assistant assistant_reply (messages r1)\<rparr>;
                  r3 = emit (StWrite assistant_reply)
                         (emit (StSuccess ''Here's what The Bard says:'') r2)
              in case chosen_voice style of
                   Inl e \<Rightarrow> request_failed w e r3
                 | Inr voice \<Rightarrow> speech_step w voice assistant_reply r3))"

text \<open>Line 142 and lines 144 to 168: the final question of a submission that passed the gate.\<close>

definition typed_question :: "submission \<Rightarrow> pyval" where
  "typed_question s = PStr (strip (or_str (user_question s) []))"

definition question_step :: "env \<Rightarrow> submission \<Rightarrow> run \<Rightarrow> pyval \<times> run" where
  "question_step w s r =
     (case voice_file s of
        None \<Rightarrow> (typed_question s, r)
      | Some blob \<Rightarrow> transcription_step w blob (typed_question s, r))"

definition final_question :: "env \<Rightarrow> submission \<Rightarrow> pyval" where
  "final_question w s =
     fst (question_step w s \<lparr>messages = [], events = [], calls = []\<rparr>)"

text \<open>The handler of the Submit button, from the conversation of the session to the run.\<close>

definition submit :: "env \<Rightarrow> submission \<Rightarrow> message list \<Rightarrow> run" where
  "submit w s ms =
     (if key_rejected (api_key s)
      then \<lparr>messages = ms,
            events = [StWarning ''Enter a valid OpenAI API key in the sidebar.''],
            calls = []\<rparr>
      else
        (let r0 = \<lparr>messages = ensure_system_prompt ms, events = [], calls = []\<rparr>;
             (question, r1) = question_step w s r0
         in if \<not> truthy question
            then emit StStop (emit (StWarning ''Provide a typed question or upload a voice file.'') r1)
            else chat_step w (voice_style s)
                   (r1\<lparr>messages := append_message User question (messages r1)\<rparr>)))"

section \<open>The text extraction order in the words of the specification\<close>








section \<open>Sessions and the invariant of the conversation\<close>

text \<open>At most one system message, and in first place when there is one.\<close>

definition conversation_inv :: "message list \<Rightarrow> bool" where
  "conversation_inv ms =
     (length (filter is_system ms) \<le> 1 \<and> (list_ex is_system ms \<longrightarrow> is_system (hd ms)))"

text \<open>A session is a sequence of button presses on the conversation kept in the session
  state; \<open>insertions\<close> counts the steps that bring a system message into a conversation
  that had none.\<close>

datatype action = Submit env submission | Clear

fun step :: "message list \<Rightarrow> action \<Rightarrow> message list" where
  "step ms (Submit w s) = messages (submit w s ms)"
| "step ms Clear = clear ms"

fun insertions :: "message list \<Rightarrow> action list \<Rightarrow> nat" where
  "insertions ms [] = 0"
| "insertions ms (a # as) =
     (if \<not> list_ex is_system ms \<and> list_ex is_system (step ms a) then 1 else 0)
     + insertions (step ms a) as"

section \<open>A concrete world for the examples\<close>

text \<open>Each remote call has one fixed outcome; a string prints as itself; the TypeError of
  indexing a tuple by a string prints as Python words it.\<close>

definition example_env :: "exn + pyval \<Rightarrow> exn + pyval \<Rightarrow> exn + pyval \<Rightarrow> env" where
  "example_env t c a =
     \<lparr>str_of = (\<lambda>v. Inr (case v of PStr x \<Rightarrow> x | _ \<Rightarrow> ''<value>'')),
      str_exn = (\<lambda>e. case e of
                   OtherError m \<Rightarrow> m
                 | TypeError \<Rightarrow> ''tuple indices must be integers or slices, not str''
                 | _ \<Rightarrow> ''<exception>''),
      transcribe = (\<lambda>blob. t),
      chat = (\<lambda>ms. c),
      speech = (\<lambda>voice x. a)\<rparr>"

text \<open>A chat completion in the shape the first access path reads.\<close>

definition completion :: "string \<Rightarrow> pyval" where
  "completion reply =
     PObj [(''choices'', PList [PObj [(''message'', PObj [(''content'', PStr reply)])]])]"

section \<open>What the normalizers swallow\<close>

lemma get_attr_only_AttributeError: "get_attr x n = Inl e \<Longrightarrow> e = AttributeError"
  by (cases x) (auto split: option.splits)

lemma hasattr_eq: "hasattr x n = Inr (case get_attr x n of Inr v \<Rightarrow> True | Inl e \<Rightarrow> False)"
  by (auto simp: hasattr_def split: sum.splits exn.splits dest: get_attr_only_AttributeError)

lemma safe_get_transcription_text_returns: "\<exists>v. safe_get_transcription_text t = Inr v"
  by (auto simp: safe_get_transcription_text_def try_except_def split: sum.splits)

lemma safe_get_audio_bytes_returns: "\<exists>v. safe_get_audio_bytes a = Inr v"
  by (auto simp: safe_get_audio_bytes_def split: sum.splits option.splits)

lemma chosen_voice_raises: "chosen_voice style = Inl TypeError"
  by (simp add: chosen_voice_def)

section \<open>Text extraction\<close>
















section \<open>Binary extraction\<close>

text \<open>
  Claim C6, as the code has it. For every audio response, \<open>safe_get_audio_bytes\<close> returns
  (always \<open>Inr\<close>, never an exception): when the value has an attribute \<open>read\<close>, what calling
  it returns, and None when that call fails (it raises, or \<open>read\<close> is not callable), with no
  further strategy tried; without \<open>read\<close>, its \<open>content\<close> when it has one; else its bytes
  when it is a \<open>bytes\<close> or a \<open>bytearray\<close>; else, for a dict, the value of the first key it
  holds among \<open>audio\<close>, \<open>data\<close>, \<open>content\<close>; and None when nothing matches.
\<close>

theorem safe_get_audio_bytes_order:
  "safe_get_audio_bytes a =
     Inr (case get_attr a ''read'' of
            Inr m \<Rightarrow> (case call m of Inr v \<Rightarrow> v | Inl e \<Rightarrow> PNone)
          | Inl e \<Rightarrow> (case get_attr a ''content'' of
              Inr v \<Rightarrow> v
            | Inl e \<Rightarrow> (case a of
                PBytes b \<Rightarrow> PBytes b
              | PByteArray b \<Rightarrow> PBytes b
              | PDict d \<Rightarrow> (case map_of d (KStr ''audio'') of
                  Some v \<Rightarrow> v
                | None \<Rightarrow> (case map_of d (KStr ''data'') of
                    Some v \<Rightarrow> v
                  | None \<Rightarrow> (case map_of d (KStr ''content'') of
                      Some v \<Rightarrow> v
                    | None \<Rightarrow> PNone)))
              | _ \<Rightarrow> PNone)))"
  by (simp add: safe_get_audio_bytes_def audio_bytes_body_def hasattr_eq and_then_def
           split: sum.splits option.splits pyval.splits)

theorem safe_get_audio_bytes_order_witness:
  "safe_get_audio_bytes (PObj [(''read'', PMethod (Inr (PBytes ''ID3''))), (''content'', PBytes ''x'')])
     = Inr (PBytes ''ID3'')
   \<and> safe_get_audio_bytes (PObj [(''content'', PBytes ''ID3'')]) = Inr (PBytes ''ID3'')
   \<and> safe_get_audio_bytes (PBytes ''ID3'') = Inr (PBytes ''ID3'')
   \<and> safe_get_audio_bytes (PByteArray ''ID3'') = Inr (PBytes ''ID3'')
   \<and> safe_get_audio_bytes (PDict [(KStr ''content'', PBytes ''c''), (KStr ''data'', PBytes ''d'')])
     = Inr (PBytes ''d'')
   \<and> safe_get_audio_bytes (PDict [(KStr ''audio'', PBytes ''a''), (KStr ''data'', PBytes ''d'')])
     = Inr (PBytes ''a'')
   \<and> safe_get_audio_bytes (PDict [(KStr ''other'', PBytes ''a'')]) = Inr PNone
   \<and> safe_get_audio_bytes (PInt 7) = Inr PNone
   \<and> safe_get_audio_bytes (PObj [(''read'', PMethod (Inl (OtherError ''closed'')))]) = Inr PNone"
  unfolding safe_get_audio_bytes_order
  by simp

text \<open>
  Claim C6 as stated fails: a value whose \<open>read\<close> is no operation (it is not callable), or
  whose \<open>read()\<close> raises, and which has a \<open>content\<close>, yields None and not the content: the
  one \<open>try\<close> of lines 65 to 78 ends at the first failure.
\<close>

theorem failed_read_skips_content_counterexample:
  "safe_get_audio_bytes (PObj [(''read'', PBytes ''abc''), (''content'', PBytes ''x'')]) = Inr PNone
   \<and> safe_get_audio_bytes (PObj [(''read'', PBytes ''abc''), (''content'', PBytes ''x'')])
       \<noteq> Inr (PBytes ''x'')
   \<and> safe_get_audio_bytes
       (PObj [(''read'', PMethod (Inl (OtherError ''closed''))), (''content'', PBytes ''x'')])
     = Inr PNone"
  by (simp add: safe_get_audio_bytes_def audio_bytes_body_def hasattr_def and_then_def)

section \<open>The steps of the submit handler\<close>

lemma question_step_fst: "fst (question_step w s r) = final_question w s"
  by (simp add: question_step_def final_question_def transcription_step_def Let_def
           split: option.splits sum.splits)

lemma question_step_messages: "messages (snd (question_step w s r)) = messages r"
  by (simp add: question_step_def transcription_step_def emit_def issue_def Let_def
           split: option.splits sum.splits)

lemma question_step_calls:
  "calls (snd (question_step w s r)) =
     calls r @ (case voice_file s of None \<Rightarrow> [] | Some blob \<Rightarrow> [Transcription blob])"
  by (simp add: question_step_def transcription_step_def emit_def issue_def Let_def
           split: option.splits sum.splits)

lemma submit_accepted:
  "\<not> key_rejected (api_key s) \<Longrightarrow>
   submit w s ms =
     (let r1 = snd (question_step w s \<lparr>messages = ensure_system_prompt ms, events = [], calls = []\<rparr>)
      in if \<not> truthy (final_question w s)
         then emit StStop (emit (StWarning ''Provide a typed question or upload a voice file.'') r1)
         else chat_step w (voice_style s)
                (r1\<lparr>messages := append_message User (final_question w s) (ensure_system_prompt ms)\<rparr>))"
  using question_step_fst [of w s "\<lparr>messages = ensure_system_prompt ms, events = [], calls = []\<rparr>"]
        question_step_messages [of w s "\<lparr>messages = ensure_system_prompt ms, events = [], calls = []\<rparr>"]
  by (simp add: submit_def Let_def split_def)

lemma final_question_no_file: "voice_file s = None \<Longrightarrow> final_question w s = typed_question s"
  by (simp add: final_question_def question_step_def)

lemma final_question_file:
  "voice_file s = Some blob \<Longrightarrow>
   final_question w s =
     (case and_then (transcribe w blob) safe_get_transcription_text of
        Inr tx \<Rightarrow> if truthy tx then tx else typed_question s
      | Inl e \<Rightarrow> typed_question s)"
  by (simp add: final_question_def question_step_def transcription_step_def Let_def
           split: sum.splits)

lemma typed_question_strip: "typed_question s = PStr (strip (user_question s))"
  by (simp add: typed_question_def or_str_def)

lemma chat_step_failure:
  "chat w (messages r) = Inl e \<Longrightarrow>
   chat_step w style r = request_failed w e (issue (ChatCompletion (messages r)) r)"
  by (simp add: chat_step_def and_then_def Let_def)

lemma chat_step_success:
  "chat w (messages r) = Inr response \<Longrightarrow>
   safe_get_assistant_text (str_of w) response = Inr reply \<Longrightarrow>
   chat_step w style r =
     request_failed w TypeError
       (emit (StWrite reply) (emit (StSuccess ''Here's what The Bard says:'')
          ((issue (ChatCompletion (messages r)) r)
             \<lparr>messages := append_message Assistant reply (messages r)\<rparr>)))"
  by (simp add: chat_step_def and_then_def Let_def chosen_voice_raises issue_def)

lemma chat_step_calls:
  "calls (chat_step w style r) = calls r @ [ChatCompletion (messages r)]"
  by (simp add: chat_step_def Let_def request_failed_def emit_def issue_def chosen_voice_raises
        split: sum.splits)

lemma chat_call_only_with_question:
  assumes "ChatCompletion m \<in> set (calls (submit w s ms))"
  shows "\<not> key_rejected (api_key s) \<and> truthy (final_question w s)
         \<and> m = append_message User (final_question w s) (ensure_system_prompt ms)"
proof (cases "key_rejected (api_key s)")
  case True
  with assms show ?thesis by (simp add: submit_def)
next
  case False
  show ?thesis
  proof (cases "truthy (final_question w s)")
    case nq: False
    with False assms show ?thesis
      by (simp add: submit_accepted Let_def emit_def question_step_calls split: option.splits)
  next
    case True
    with False assms show ?thesis
      by (auto simp: submit_accepted Let_def chat_step_calls question_step_calls
            split: option.splits)
  qed
qed

section \<open>The final question\<close>

text \<open>
  Claim C1, as the code has it. For a submission with an audio file: when the transcription
  call returns and \<open>safe_get_transcription_text\<close> extracts a truthy transcript, the final
  question is that transcript; when the call raises, or the extracted text is None or empty,
  the final question is the typed text with its leading and trailing whitespace stripped
  (line 142). For an accepted key and a non-empty final question, the chat call receives the
  conversation, system prompt ensured, followed by the user message that holds the final
  question; and no chat call is made with anything else, nor with an empty final question.
\<close>

theorem final_question_tie_break:
  assumes "voice_file s = Some blob"
  shows "(transcribe w blob = Inr t \<and> safe_get_transcription_text t = Inr tx \<and> truthy tx
            \<longrightarrow> final_question w s = tx)
       \<and> (transcribe w blob = Inl e \<longrightarrow> final_question w s = PStr (strip (user_question s)))
       \<and> (transcribe w blob = Inr t \<and> safe_get_transcription_text t = Inr tx \<and> \<not> truthy tx
            \<longrightarrow> final_question w s = PStr (strip (user_question s)))
       \<and> (\<not> key_rejected (api_key s) \<and> truthy (final_question w s)
            \<longrightarrow> ChatCompletion (append_message User (final_question w s) (ensure_system_prompt ms))
                  \<in> set (calls (submit w s ms)))
       \<and> (ChatCompletion m \<in> set (calls (submit w s ms))
            \<longrightarrow> \<not> key_rejected (api_key s) \<and> truthy (final_question w s)
                \<and> m = append_message User (final_question w s) (ensure_system_prompt ms))"
proof -
  have fq: "final_question w s =
     (case and_then (transcribe w blob) safe_get_transcription_text of
        Inr tx \<Rightarrow> if truthy tx then tx else typed_question s
      | Inl e \<Rightarrow> typed_question s)"
    using assms by (rule final_question_file)
  have a: "transcribe w blob = Inr t \<and> safe_get_transcription_text t = Inr tx \<and> truthy tx
            \<longrightarrow> final_question w s = tx"
    by (simp add: fq and_then_def)
  have b: "transcribe w blob = Inl e \<longrightarrow> final_question w s = PStr (strip (user_question s))"
    by (simp add: fq and_then_def typed_question_strip)
  have c: "transcribe w blob = Inr t \<and> safe_get_transcription_text t = Inr tx \<and> \<not> truthy tx
            \<longrightarrow> final_question w s = PStr (strip (user_question s))"
    by (simp add: fq and_then_def typed_question_strip)
  have d: "\<not> key_rejected (api_key s) \<and> truthy (final_question w s)
            \<longrightarrow> ChatCompletion (append_message User (final_question w s) (ensure_system_prompt ms))
                  \<in> set (calls (submit w s ms))"
  proof
    assume h: "\<not> key_rejected (api_key s) \<and> truthy (final_question w s)"
    then show "ChatCompletion (append_message User (final_question w s) (ensure_system_prompt ms))
                  \<in> set (calls (submit w s ms))"
      by (simp add: submit_accepted Let_def chat_step_def request_failed_def emit_def issue_def
            chosen_voice_raises split: sum.splits)
  qed
  have e: "ChatCompletion m \<in> set (calls (submit w s ms))
            \<longrightarrow> \<not> key_rejected (api_key s) \<and> truthy (final_question w s)
                \<and> m = append_message User (final_question w s) (ensure_system_prompt ms)"
    using chat_call_only_with_question [of m w s ms] by blast
  from a b c d e show ?thesis by blast
qed

text \<open>The examples: the transcript wins over typed text; a failed transcription and an
  empty transcript fall back on the stripped typed text; the chat call gets the question; and
  typed blanks with a failed transcription lead to no chat call.\<close>

theorem final_question_tie_break_witness:
  "final_question
     (example_env (Inr (PObj [(''text'', PStr ''Who is Hamlet?'')])) (Inr (completion ''A prince''))
        (Inr (PBytes ''ID3'')))
     \<lparr>api_key = ''sk-test'', user_question = ''ignored'', voice_file = Some ''RIFF'',
      voice_style = ''Aged Shakespeare''\<rparr>
     = PStr ''Who is Hamlet?''
   \<and> final_question
     (example_env (Inl (OtherError ''timeout'')) (Inr (completion ''A prince''))
        (Inr (PBytes ''ID3'')))
     \<lparr>api_key = ''sk-test'', user_question = '' What is tragedy? '', voice_file = Some ''RIFF'',
      voice_style = ''Aged Shakespeare''\<rparr>
     = PStr ''What is tragedy?''
   \<and> final_question
     (example_env (Inr (PDict [(KStr ''text'', PStr [])])) (Inr (completion ''A prince''))
        (Inr (PBytes ''ID3'')))
     \<lparr>api_key = ''sk-test'', user_question = ''What is tragedy?'', voice_file = Some ''RIFF'',
      voice_style = ''Aged Shakespeare''\<rparr>
     = PStr ''What is tragedy?''
   \<and> ChatCompletion
       [\<lparr>role = System, content = PStr SYSTEM_PROMPT\<rparr>,
        \<lparr>role = User, content = PStr ''Who is Hamlet?''\<rparr>]
     \<in> set (calls (submit
         (example_env (Inr (PObj [(''text'', PStr ''Who is Hamlet?'')])) (Inr (completion ''A prince''))
            (Inr (PBytes ''ID3'')))
         \<lparr>api_key = ''sk-test'', user_question = ''ignored'', voice_file = Some ''RIFF'',
          voice_style = ''Aged Shakespeare''\<rparr> []))
   \<and> ChatCompletion
       [\<lparr>role = System, content = PStr SYSTEM_PROMPT\<rparr>, \<lparr>role = User, content = PStr []\<rparr>]
     \<notin> set (calls (submit
         (example_env (Inl (OtherError ''timeout'')) (Inr (completion ''A prince''))
            (Inr (PBytes ''ID3'')))
         \<lparr>api_key = ''sk-test'', user_question = ''  '', voice_file = Some ''RIFF'',
          voice_style = ''Aged Shakespeare''\<rparr> []))"
proof -
  let ?s = "\<lambda>q. \<lparr>api_key = ''sk-test'', user_question = q, voice_file = Some ''RIFF'',
      voice_style = ''Aged Shakespeare''\<rparr>"
  let ?w = "\<lambda>t. example_env t (Inr (completion ''A prince'')) (Inr (PBytes ''ID3''))"
  have tx: "safe_get_transcription_text (PObj [(''text'', PStr ''Who is Hamlet?'')])
              = Inr (PStr ''Who is Hamlet?'')"
    by (simp add: safe_get_transcription_text_def try_except_def and_then_def getattr_default_def)
  have ty: "safe_get_transcription_text (PDict [(KStr ''text'', PStr [])]) = Inr (PStr [])"
    by (simp add: safe_get_transcription_text_def try_except_def and_then_def getattr_default_def)
  have 1: "final_question (?w (Inr (PObj [(''text'', PStr ''Who is Hamlet?'')]))) (?s ''ignored'')
             = PStr ''Who is Hamlet?''"
    using final_question_tie_break [of "?s ''ignored''" "''RIFF''"
            "?w (Inr (PObj [(''text'', PStr ''Who is Hamlet?'')]))"
            "PObj [(''text'', PStr ''Who is Hamlet?'')]" "PStr ''Who is Hamlet?''"] tx
    by (simp add: example_env_def)
  have 2: "final_question (?w (Inl (OtherError ''timeout''))) (?s '' What is tragedy? '')
             = PStr ''What is tragedy?''"
    using final_question_tie_break [of "?s '' What is tragedy? ''" "''RIFF''"
            "?w (Inl (OtherError ''timeout''))" _ _ "OtherError ''timeout''"]
    by (simp add: example_env_def strip_def isspace_def)
  have 3: "final_question (?w (Inr (PDict [(KStr ''text'', PStr [])]))) (?s ''What is tragedy?'')
             = PStr ''What is tragedy?''"
    using final_question_tie_break [of "?s ''What is tragedy?''" "''RIFF''"
            "?w (Inr (PDict [(KStr ''text'', PStr [])]))" "PDict [(KStr ''text'', PStr [])]" "PStr []"] ty
    by (simp add: example_env_def strip_def isspace_def)
  have 4: "ChatCompletion
       [\<lparr>role = System, content = PStr SYSTEM_PROMPT\<rparr>,
        \<lparr>role = User, content = PStr ''Who is Hamlet?''\<rparr>]
     \<in> set (calls (submit (?w (Inr (PObj [(''text'', PStr ''Who is Hamlet?'')]))) (?s ''ignored'') []))"
    using final_question_tie_break [of "?s ''ignored''" "''RIFF''"
            "?w (Inr (PObj [(''text'', PStr ''Who is Hamlet?'')]))" _ _ _ "[]"] 1
    by (simp add: key_rejected_def startswith_def append_message_def ensure_system_prompt_def)
  have blank: "final_question (?w (Inl (OtherError ''timeout''))) (?s ''  '') = PStr []"
    using final_question_tie_break [of "?s ''  ''" "''RIFF''"
            "?w (Inl (OtherError ''timeout''))" _ _ "OtherError ''timeout''"]
    by (simp add: example_env_def strip_def isspace_def)
  have 5: "ChatCompletion
       [\<lparr>role = System, content = PStr SYSTEM_PROMPT\<rparr>, \<lparr>role = User, content = PStr []\<rparr>]
     \<notin> set (calls (submit (?w (Inl (OtherError ''timeout''))) (?s ''  '') []))"
    using final_question_tie_break [of "?s ''  ''" "''RIFF''"
            "?w (Inl (OtherError ''timeout''))" _ _ _ "[]"
            "[\<lparr>role = System, content = PStr SYSTEM_PROMPT\<rparr>, \<lparr>role = User, content = PStr []\<rparr>]"]
          blank
    by auto
  from 1 2 3 4 5 show ?thesis by simp
qed

text \<open>
  Claim C1 as stated fails: with the typed text \<open>'' What is tragedy? ''\<close> and a
  transcription that raises, the final question passed to the chat call is not the typed
  text but \<open>''What is tragedy?''\<close>.
\<close>

theorem typed_text_is_stripped_counterexample:
  "final_question
     (example_env (Inl (OtherError ''timeout'')) (Inr (completion ''A prince'')) (Inr (PBytes ''ID3'')))
     \<lparr>api_key = ''sk-test'', user_question = '' What is tragedy? '', voice_file = Some ''RIFF'',
      voice_style = ''Aged Shakespeare''\<rparr>
     \<noteq> PStr '' What is tragedy? ''
   \<and> ChatCompletion
       [\<lparr>role = System, content = PStr SYSTEM_PROMPT\<rparr>,
        \<lparr>role = User, content = PStr ''What is tragedy?''\<rparr>]
     \<in> set (calls (submit
         (example_env (Inl (OtherError ''timeout'')) (Inr (completion ''A prince'')) (Inr (PBytes ''ID3'')))
         \<lparr>api_key = ''sk-test'', user_question = '' What is tragedy? '', voice_file = Some ''RIFF'',
          voice_style = ''Aged Shakespeare''\<rparr> []))"
  by (simp add: submit_def key_rejected_def startswith_def question_step_def final_question_def
        transcription_step_def typed_question_def or_str_def strip_def isspace_def and_then_def
        example_env_def emit_def issue_def chat_step_def Let_def ensure_system_prompt_def
        append_message_def completion_def safe_get_assistant_text_def try_except_def attr_path_def
        seq_index_def chosen_voice_raises request_failed_def)

section \<open>The halt on an empty question\<close>

text \<open>
  Claim C2, as the code has it. For an accepted key, empty typed text and an audio file whose
  transcription raises, the handler stops before the chat call (the transcription is the only
  remote call, the last event is the stop) and appends no user or assistant message; the
  conversation is left as \<open>ensure_system_prompt\<close> made it at line 139: unchanged when it
  already held a system message, with the system prompt put in front otherwise.
\<close>

theorem empty_question_halts:
  assumes "\<not> key_rejected (api_key s)" and "user_question s = []"
    and "voice_file s = Some blob" and "transcribe w blob = Inl e"
  shows "messages (submit w s ms) = ensure_system_prompt ms
       \<and> filter (\<lambda>m. \<not> is_system m) (messages (submit w s ms)) = filter (\<lambda>m. \<not> is_system m) ms
       \<and> (if list_ex is_system ms then messages (submit w s ms) = ms
          else messages (submit w s ms) = \<lparr>role = System, content = PStr SYSTEM_PROMPT\<rparr> # ms)
       \<and> calls (submit w s ms) = [Transcription blob]
       \<and> events (submit w s ms) =
           [StInfo ''Transcribing audio...'',
            StError (''Transcription failed: '' @ str_exn w e),
            StWarning ''Provide a typed question or upload a voice file.'',
            StStop]"
proof -
  have fq: "final_question w s = PStr []"
    using assms by (simp add: final_question_file and_then_def typed_question_strip strip_def)
  have run: "submit w s ms =
      \<lparr>messages = ensure_system_prompt ms,
       events = [StInfo ''Transcribing audio...'',
            StError (''Transcription failed: '' @ str_exn w e),
            StWarning ''Provide a typed question or upload a voice file.'',
            StStop],
       calls = [Transcription blob]\<rparr>"
    using assms
    by (simp add: submit_accepted fq Let_def question_step_def transcription_step_def
          and_then_def emit_def issue_def)
  show ?thesis
    by (simp add: run ensure_system_prompt_def is_system_def)
qed

theorem empty_question_halts_witness:
  "messages (submit
      (example_env (Inl (OtherError ''timeout'')) (Inr (completion ''A prince'')) (Inr (PBytes ''ID3'')))
      \<lparr>api_key = ''sk-test'', user_question = [], voice_file = Some ''RIFF'',
       voice_style = ''Aged Shakespeare''\<rparr>
      [\<lparr>role = System, content = PStr SYSTEM_PROMPT\<rparr>, \<lparr>role = User, content = PStr ''Hi''\<rparr>])
     = [\<lparr>role = System, content = PStr SYSTEM_PROMPT\<rparr>, \<lparr>role = User, content = PStr ''Hi''\<rparr>]
   \<and> calls (submit
      (example_env (Inl (OtherError ''timeout'')) (Inr (completion ''A prince'')) (Inr (PBytes ''ID3'')))
      \<lparr>api_key = ''sk-test'', user_question = [], voice_file = Some ''RIFF'',
       voice_style = ''Aged Shakespeare''\<rparr>
      [\<lparr>role = System, content = PStr SYSTEM_PROMPT\<rparr>, \<lparr>role = User, content = PStr ''Hi''\<rparr>])
     = [Transcription ''RIFF'']"
  using empty_question_halts [of
      "\<lparr>api_key = ''sk-test'', user_question = [], voice_file = Some ''RIFF'',
        voice_style = ''Aged Shakespeare''\<rparr>" "''RIFF''"
      "example_env (Inl (OtherError ''timeout'')) (Inr (completion ''A prince'')) (Inr (PBytes ''ID3''))"
      "OtherError ''timeout''"
      "[\<lparr>role = System, content = PStr SYSTEM_PROMPT\<rparr>, \<lparr>role = User, content = PStr ''Hi''\<rparr>]"]
  by (simp add: key_rejected_def startswith_def example_env_def ensure_system_prompt_def
        is_system_def)

text \<open>
  Claim C2 as stated fails: in a fresh session (the empty conversation) the same submission
  leaves the system message in the conversation.
\<close>

theorem system_prompt_inserted_before_halt_counterexample:
  "messages (submit
      (example_env (Inl (OtherError ''timeout'')) (Inr (completion ''A prince'')) (Inr (PBytes ''ID3'')))
      \<lparr>api_key = ''sk-test'', user_question = [], voice_file = Some ''RIFF'',
       voice_style = ''Aged Shakespeare''\<rparr> [])
     = [\<lparr>role = System, content = PStr SYSTEM_PROMPT\<rparr>]
   \<and> messages (submit
      (example_env (Inl (OtherError ''timeout'')) (Inr (completion ''A prince'')) (Inr (PBytes ''ID3'')))
      \<lparr>api_key = ''sk-test'', user_question = [], voice_file = Some ''RIFF'',
       voice_style = ''Aged Shakespeare''\<rparr> []) \<noteq> []"
  by (simp add: submit_def key_rejected_def startswith_def question_step_def
        transcription_step_def typed_question_def or_str_def strip_def and_then_def
        example_env_def emit_def issue_def Let_def ensure_system_prompt_def)

section \<open>A chat completion that raises\<close>

text \<open>
  Claim C7. For an accepted key and a non-empty final question, when the chat completion
  call raises \<open>e\<close>, no speech call is issued and no audio is played, no assistant message is
  appended, and the last thing shown is the error whose text is \<open>OpenAI request failed: \<close>
  followed by \<open>str(e)\<close> unchanged.
\<close>

theorem chat_failure_halts:
  assumes "\<not> key_rejected (api_key s)" and "truthy (final_question w s)"
    and "chat w (append_message User (final_question w s) (ensure_system_prompt ms)) = Inl e"
  shows "last (events (submit w s ms)) = StError (''OpenAI request failed: '' @ str_exn w e)
       \<and> (\<forall>voice x. Speech voice x \<notin> set (calls (submit w s ms)))
       \<and> (\<forall>b. StAudio b \<notin> set (events (submit w s ms)))
       \<and> messages (submit w s ms)
           = append_message User (final_question w s) (ensure_system_prompt ms)"
proof -
  let ?r0 = "\<lparr>messages = ensure_system_prompt ms, events = [], calls = []\<rparr>"
  let ?r1 = "snd (question_step w s ?r0)"
  let ?m = "append_message User (final_question w s) (ensure_system_prompt ms)"
  have run: "submit w s ms =
      request_failed w e (issue (ChatCompletion ?m) (?r1\<lparr>messages := ?m\<rparr>))"
    using assms by (simp add: submit_accepted Let_def chat_step_failure)
  have c: "calls ?r1 = (case voice_file s of None \<Rightarrow> [] | Some blob \<Rightarrow> [Transcription blob])"
    by (simp add: question_step_calls)
  have ev: "\<forall>b. StAudio b \<notin> set (events ?r1)"
    by (simp add: question_step_def transcription_step_def emit_def issue_def Let_def
          split: option.splits sum.splits)
  show ?thesis
    using ev by (simp add: run request_failed_def emit_def issue_def c split: option.splits)
qed

theorem chat_failure_halts_witness:
  "last (events (submit
      (example_env (Inl (OtherError ''timeout'')) (Inl (OtherError ''rate limit reached''))
         (Inr (PBytes ''ID3'')))
      \<lparr>api_key = ''sk-test'', user_question = ''Who is Hamlet?'', voice_file = None,
       voice_style = ''Aged Shakespeare''\<rparr> []))
     = StError ''OpenAI request failed: rate limit reached''
   \<and> messages (submit
      (example_env (Inl (OtherError ''timeout'')) (Inl (OtherError ''rate limit reached''))
         (Inr (PBytes ''ID3'')))
      \<lparr>api_key = ''sk-test'', user_question = ''Who is Hamlet?'', voice_file = None,
       voice_style = ''Aged Shakespeare''\<rparr> [])
     = [\<lparr>role = System, content = PStr SYSTEM_PROMPT\<rparr>,
        \<lparr>role = User, content = PStr ''Who is Hamlet?''\<rparr>]"
proof -
  let ?w = "example_env (Inl (OtherError ''timeout'')) (Inl (OtherError ''rate limit reached''))
         (Inr (PBytes ''ID3''))"
  let ?s = "\<lparr>api_key = ''sk-test'', user_question = ''Who is Hamlet?'', voice_file = None,
       voice_style = ''Aged Shakespeare''\<rparr>"
  have fq: "final_question ?w ?s = PStr ''Who is Hamlet?''"
    by (simp add: final_question_no_file typed_question_strip strip_def isspace_def)
  have k: "\<not> key_rejected (api_key ?s)"
    by (simp add: key_rejected_def startswith_def)
  have t: "truthy (final_question ?w ?s)"
    by (simp add: fq)
  have c: "chat ?w (append_message User (final_question ?w ?s) (ensure_system_prompt []))
             = Inl (OtherError ''rate limit reached'')"
    by (simp add: example_env_def)
  have se: "str_exn ?w (OtherError ''rate limit reached'') = ''rate limit reached''"
    by (simp add: example_env_def)
  note r = chat_failure_halts [OF k t c, unfolded fq se]
  from r show ?thesis
    by (simp add: append_message_def ensure_system_prompt_def)
qed

section \<open>An empty transcript\<close>

text \<open>
  Claim C10, as the code has it. A transcription response whose text is present and empty
  yields what its \<open>get("text")\<close> gives: for an object with the attribute \<open>text\<close>, None when
  it has no \<open>get\<close> or the call fails, and the value the call returns otherwise; for a dict
  with the key \<open>text\<close>, the empty string itself. The empty text never is the final question:
  that stays the stripped typed text, unless the object's \<open>get\<close> returns a truthy value,
  which is then taken for the transcript.
\<close>

theorem empty_transcript_result:
  "(map_of attrs ''text'' = Some (PStr [])
      \<longrightarrow> safe_get_transcription_text (PObj attrs)
          = Inr (case map_of attrs ''get'' of
                   None \<Rightarrow> PNone
                 | Some m \<Rightarrow> (case call m of Inr v \<Rightarrow> v | Inl e \<Rightarrow> PNone)))
   \<and> (map_of d (KStr ''text'') = Some (PStr [])
      \<longrightarrow> safe_get_transcription_text (PDict d) = Inr (PStr []))
   \<and> (voice_file s = Some blob \<and> transcribe w blob = Inr (PDict d)
       \<and> map_of d (KStr ''text'') = Some (PStr [])
      \<longrightarrow> final_question w s = PStr (strip (user_question s)))
   \<and> (voice_file s = Some blob \<and> transcribe w blob = Inr (PObj attrs)
       \<and> map_of attrs ''text'' = Some (PStr [])
      \<longrightarrow> final_question w s
          = (case map_of attrs ''get'' of
               None \<Rightarrow> PStr (strip (user_question s))
             | Some m \<Rightarrow> (case call m of
                 Inr v \<Rightarrow> if truthy v then v else PStr (strip (user_question s))
               | Inl e \<Rightarrow> PStr (strip (user_question s)))))"
proof -
  have a: "map_of attrs ''text'' = Some (PStr [])
      \<longrightarrow> safe_get_transcription_text (PObj attrs)
          = Inr (case map_of attrs ''get'' of
                   None \<Rightarrow> PNone
                 | Some m \<Rightarrow> (case call m of Inr v \<Rightarrow> v | Inl e \<Rightarrow> PNone))"
    by (simp add: safe_get_transcription_text_def try_except_def and_then_def getattr_default_def
          split: option.splits sum.splits)
  have b: "map_of d (KStr ''text'') = Some (PStr [])
      \<longrightarrow> safe_get_transcription_text (PDict d) = Inr (PStr [])"
    by (simp add: safe_get_transcription_text_def try_except_def and_then_def getattr_default_def)
  have c: "voice_file s = Some blob \<and> transcribe w blob = Inr (PDict d)
       \<and> map_of d (KStr ''text'') = Some (PStr [])
      \<longrightarrow> final_question w s = PStr (strip (user_question s))"
    using b by (simp add: final_question_file and_then_def typed_question_strip)
  have d: "voice_file s = Some blob \<and> transcribe w blob = Inr (PObj attrs)
       \<and> map_of attrs ''text'' = Some (PStr [])
      \<longrightarrow> final_question w s
          = (case map_of attrs ''get'' of
               None \<Rightarrow> PStr (strip (user_question s))
             | Some m \<Rightarrow> (case call m of
                 Inr v \<Rightarrow> if truthy v then v else PStr (strip (user_question s))
               | Inl e \<Rightarrow> PStr (strip (user_question s))))"
    using a
    by (simp add: final_question_file and_then_def typed_question_strip
          split: option.splits sum.splits)
  from a b c d show ?thesis by blast
qed

theorem empty_transcript_result_witness:
  "safe_get_transcription_text (PObj [(''text'', PStr [])]) = Inr PNone
   \<and> safe_get_transcription_text (PDict [(KStr ''text'', PStr [])]) = Inr (PStr [])
   \<and> final_question
       (example_env (Inr (PDict [(KStr ''text'', PStr [])])) (Inr (completion ''A prince''))
          (Inr (PBytes ''ID3'')))
       \<lparr>api_key = ''sk-test'', user_question = ''Who is Hamlet?'', voice_file = Some ''RIFF'',
        voice_style = ''Aged Shakespeare''\<rparr>
     = PStr ''Who is Hamlet?''
   \<and> final_question
       (example_env (Inr (PObj [(''text'', PStr [])])) (Inr (completion ''A prince''))
          (Inr (PBytes ''ID3'')))
       \<lparr>api_key = ''sk-test'', user_question = ''Who is Hamlet?'', voice_file = Some ''RIFF'',
        voice_style = ''Aged Shakespeare''\<rparr>
     = PStr ''Who is Hamlet?''
   \<and> safe_get_transcription_text
       (PObj [(''text'', PStr []), (''get'', PMethod (Inl (OtherError ''no such key'')))])
     = Inr PNone"
proof -
  let ?wd = "example_env (Inr (PDict [(KStr ''text'', PStr [])])) (Inr (completion ''A prince''))
          (Inr (PBytes ''ID3''))"
  let ?wo = "example_env (Inr (PObj [(''text'', PStr [])])) (Inr (completion ''A prince''))
          (Inr (PBytes ''ID3''))"
  let ?s = "\<lparr>api_key = ''sk-test'', user_question = ''Who is Hamlet?'', voice_file = Some ''RIFF'',
        voice_style = ''Aged Shakespeare''\<rparr>"
  have td: "transcribe ?wd ''RIFF'' = Inr (PDict [(KStr ''text'', PStr [])])"
    by (simp add: example_env_def)
  have to: "transcribe ?wo ''RIFF'' = Inr (PObj [(''text'', PStr [])])"
    by (simp add: example_env_def)
  have st: "strip ''Who is Hamlet?'' = ''Who is Hamlet?''"
    by (simp add: strip_def isspace_def)
  from empty_transcript_result [of "[(''text'', PStr [])]" "[(KStr ''text'', PStr [])]"
         ?s "''RIFF''" ?wd] td st
  have 1: "safe_get_transcription_text (PObj [(''text'', PStr [])]) = Inr PNone
     \<and> safe_get_transcription_text (PDict [(KStr ''text'', PStr [])]) = Inr (PStr [])
     \<and> final_question ?wd ?s = PStr ''Who is Hamlet?''"
    by simp
  from empty_transcript_result [of "[(''text'', PStr [])]" "[(KStr ''text'', PStr [])]"
         ?s "''RIFF''" ?wo] to st
  have 2: "final_question ?wo ?s = PStr ''Who is Hamlet?''"
    by simp
  from empty_transcript_result
         [of "[(''text'', PStr []), (''get'', PMethod (Inl (OtherError ''no such key'')))]"]
  have 3: "safe_get_transcription_text
       (PObj [(''text'', PStr []), (''get'', PMethod (Inl (OtherError ''no such key'')))])
     = Inr PNone"
    by simp
  from 1 2 3 show ?thesis by simp
qed

text \<open>
  Claim C10 as stated fails twice: for the dict \<open>{"text": ""}\<close> the extraction returns the
  empty string, not None; and for an object whose \<open>text\<close> is empty and whose \<open>get\<close> returns
  \<open>''x''\<close>, that value, not the typed text, is the final question.
\<close>

theorem empty_text_transcript_counterexample:
  "safe_get_transcription_text (PDict [(KStr ''text'', PStr [])]) = Inr (PStr [])
   \<and> safe_get_transcription_text (PDict [(KStr ''text'', PStr [])]) \<noteq> Inr PNone
   \<and> final_question
       (example_env (Inr (PObj [(''text'', PStr []), (''get'', PMethod (Inr (PStr ''x'')))]))
          (Inr (completion ''A prince'')) (Inr (PBytes ''ID3'')))
       \<lparr>api_key = ''sk-test'', user_question = ''Who is Hamlet?'', voice_file = Some ''RIFF'',
        voice_style = ''Aged Shakespeare''\<rparr>
     = PStr ''x''"
  by (simp add: safe_get_transcription_text_def try_except_def and_then_def getattr_default_def
        final_question_def question_step_def transcription_step_def example_env_def Let_def
        emit_def issue_def)

section \<open>The voice lookup\<close>

text \<open>
  Claim C4 does not hold of the code. For each of the six labels, \<open>voice_map[voice_style]\<close>
  raises TypeError, since \<open>voice_map\<close> is a tuple (the comma of line 200); the dict inside
  the tuple does map the six labels to non-empty identifiers.
\<close>

theorem voice_lookup_raises:
  "map chosen_voice voice_styles
     = [Inl TypeError, Inl TypeError, Inl TypeError, Inl TypeError, Inl TypeError, Inl TypeError]
   \<and> map (map_of (hd voice_map)) voice_styles
     = [Some ''alloy'', Some ''verse'', Some ''sage'', Some ''spark'', Some ''duet'',
        Some ''whisper'']"
  by (simp add: voice_styles_def chosen_voice_def voice_map_def)

text \<open>
  Claim C3 does not hold of the code. In a submission whose chat completion succeeds, the
  reply is appended and shown, then the voice lookup of line 201 raises outside the inner
  \<open>try\<close>: the speech call is never issued (here it would have raised), and the failure is
  shown by the outer \<open>except\<close> as the error \<open>OpenAI request failed\<close>, not as the warning of
  line 216.
\<close>

theorem speech_step_not_reached:
  "submit
     (example_env (Inl (OtherError ''no audio'')) (Inr (completion ''To be''))
        (Inl (OtherError ''speech service down'')))
     \<lparr>api_key = ''sk-test'', user_question = ''Who is Hamlet?'', voice_file = None,
      voice_style = ''Aged Shakespeare''\<rparr> []
   = \<lparr>messages =
        [\<lparr>role = System, content = PStr SYSTEM_PROMPT\<rparr>,
         \<lparr>role = User, content = PStr ''Who is Hamlet?''\<rparr>,
         \<lparr>role = Assistant, content = PStr ''To be''\<rparr>],
      events =
        [StSuccess ''Here's what The Bard says:'',
         StWrite (PStr ''To be''),
         StError ''OpenAI request failed: tuple indices must be integers or slices, not str''],
      calls =
        [ChatCompletion
           [\<lparr>role = System, content = PStr SYSTEM_PROMPT\<rparr>,
            \<lparr>role = User, content = PStr ''Who is Hamlet?''\<rparr>]]\<rparr>"
  by (simp add: submit_def key_rejected_def startswith_def question_step_def
        typed_question_def or_str_def strip_def isspace_def and_then_def
        example_env_def emit_def issue_def chat_step_def Let_def ensure_system_prompt_def
        append_message_def completion_def safe_get_assistant_text_def try_except_def attr_path_def
        seq_index_def chosen_voice_raises request_failed_def)

section \<open>The credential gate\<close>

text \<open>
  Claim C8 does not hold of the code. The key \<open>sk-x\<close> has the prefix but not the length: the
  sidebar reports an invalid format, the gate of the submit handler lets it through, and the
  chat call is issued.
\<close>

theorem short_key_passes_gate:
  "sidebar_check ''sk-x'' = InvalidKeyFormat
   \<and> \<not> key_rejected ''sk-x''
   \<and> calls (submit
       (example_env (Inl (OtherError ''no audio'')) (Inr (completion ''To be''))
          (Inl (OtherError ''speech service down'')))
       \<lparr>api_key = ''sk-x'', user_question = ''Who is Hamlet?'', voice_file = None,
        voice_style = ''Aged Shakespeare''\<rparr> [])
     = [ChatCompletion
           [\<lparr>role = System, content = PStr SYSTEM_PROMPT\<rparr>,
            \<lparr>role = User, content = PStr ''Who is Hamlet?''\<rparr>]]"
  by (simp add: sidebar_check_def submit_def key_rejected_def startswith_def question_step_def
        typed_question_def or_str_def strip_def isspace_def and_then_def
        example_env_def emit_def issue_def chat_step_def Let_def ensure_system_prompt_def
        append_message_def completion_def safe_get_assistant_text_def try_except_def attr_path_def
        seq_index_def chosen_voice_raises request_failed_def)

section \<open>The invariant of the conversation\<close>

lemma no_system_filter: "\<not> list_ex is_system ms \<Longrightarrow> filter is_system ms = []"
  by (induction ms) auto

lemma inv_ensure_system_prompt:
  "conversation_inv ms \<Longrightarrow> conversation_inv (ensure_system_prompt ms)"
  by (simp add: conversation_inv_def ensure_system_prompt_def no_system_filter is_system_def)

lemma inv_append_message:
  "r \<noteq> System \<Longrightarrow> conversation_inv ms \<Longrightarrow> conversation_inv (append_message r c ms)"
  by (cases ms) (auto simp: conversation_inv_def append_message_def is_system_def)

lemma submit_messages_cases:
  "messages (submit w s ms) = ms
   \<or> messages (submit w s ms) = ensure_system_prompt ms
   \<or> (\<exists>q. messages (submit w s ms) = append_message User q (ensure_system_prompt ms))
   \<or> (\<exists>q a. messages (submit w s ms)
         = append_message Assistant a (append_message User q (ensure_system_prompt ms)))"
proof (cases "key_rejected (api_key s)")
  case True
  then show ?thesis by (simp add: submit_def)
next
  case False
  let ?r0 = "\<lparr>messages = ensure_system_prompt ms, events = [], calls = []\<rparr>"
  let ?r1 = "snd (question_step w s ?r0)"
  let ?m = "append_message User (final_question w s) (ensure_system_prompt ms)"
  show ?thesis
  proof (cases "truthy (final_question w s)")
    case nq: False
    with False have "messages (submit w s ms) = ensure_system_prompt ms"
      by (simp add: submit_accepted Let_def emit_def question_step_messages)
    then show ?thesis by simp
  next
    case q: True
    have run: "submit w s ms = chat_step w (voice_style s) (?r1\<lparr>messages := ?m\<rparr>)"
      using False q by (simp add: submit_accepted Let_def)
    show ?thesis
    proof (cases "chat w ?m")
      case (Inl e)
      then have "messages (submit w s ms) = ?m"
        by (simp add: run chat_step_failure request_failed_def emit_def issue_def)
      then show ?thesis by blast
    next
      case (Inr response)
      show ?thesis
      proof (cases "safe_get_assistant_text (str_of w) response")
        case raised: (Inl e)
        with Inr have "messages (submit w s ms) = ?m"
          by (simp add: run chat_step_def and_then_def request_failed_def emit_def issue_def)
        then show ?thesis by blast
      next
        case rp: (Inr reply)
        with Inr have "messages (submit w s ms) = append_message Assistant reply ?m"
          by (simp add: run chat_step_success request_failed_def emit_def issue_def)
        then show ?thesis by blast
      qed
    qed
  qed
qed

lemma inv_submit:
  assumes "conversation_inv ms"
  shows "conversation_inv (messages (submit w s ms))"
proof -
  have e: "conversation_inv (ensure_system_prompt ms)"
    using assms by (rule inv_ensure_system_prompt)
  have u: "conversation_inv (append_message User q (ensure_system_prompt ms))" for q
    using e by (simp add: inv_append_message)
  have a: "conversation_inv (append_message Assistant x (append_message User q (ensure_system_prompt ms)))"
    for q x
    using u by (simp add: inv_append_message)
  from submit_messages_cases [of w s ms] assms e u a show ?thesis
    by (elim disjE exE) simp_all
qed

lemma ensure_system_prompt_has_system: "list_ex is_system (ensure_system_prompt ms)"
  by (simp add: ensure_system_prompt_def is_system_def)

lemma system_kept_by_submit:
  assumes "list_ex is_system ms"
  shows "list_ex is_system (messages (submit w s ms))"
  using submit_messages_cases [of w s ms] assms ensure_system_prompt_has_system [of ms]
  by (elim disjE exE) (simp_all add: append_message_def)

lemma no_insertion_once_present:
  "list_ex is_system ms \<Longrightarrow> Clear \<notin> set as \<Longrightarrow> insertions ms as = 0"
proof (induction as arbitrary: ms)
  case Nil
  then show ?case by simp
next
  case (Cons a as)
  from Cons.prems obtain w s where a: "a = Submit w s"
    by (cases a) auto
  have "list_ex is_system (step ms a)"
    using Cons.prems(1) a by (simp add: system_kept_by_submit)
  with Cons show ?case by simp
qed

lemma one_insertion_without_clear: "Clear \<notin> set as \<Longrightarrow> insertions ms as \<le> 1"
proof (induction as arbitrary: ms)
  case Nil
  then show ?case by simp
next
  case (Cons a as)
  show ?case
  proof (cases "list_ex is_system (step ms a)")
    case True
    with Cons.prems have "insertions (step ms a) as = 0"
      by (simp add: no_insertion_once_present)
    then show ?thesis by simp
  next
    case False
    with Cons show ?thesis by simp
  qed
qed

text \<open>
  Claim C9, as the code has it. The empty conversation holds the invariant (at most one
  system message, in first place when present), and the insertion of the system prompt, the
  append of a user message, the append of an assistant message, the Clear button and a whole
  submission preserve it. The system prompt is inserted only into a conversation that has no
  system message, so a run of submissions without a Clear inserts it at most once.
\<close>

theorem conversation_inv_preserved:
  "conversation_inv []
   \<and> (conversation_inv ms \<longrightarrow>
        conversation_inv (ensure_system_prompt ms)
        \<and> conversation_inv (append_message User c ms)
        \<and> conversation_inv (append_message Assistant c ms)
        \<and> conversation_inv (clear ms)
        \<and> conversation_inv (messages (submit w s ms)))
   \<and> (list_ex is_system ms \<longrightarrow> ensure_system_prompt ms = ms)
   \<and> (Clear \<notin> set as \<longrightarrow> insertions ms as \<le> 1)"
proof -
  have e: "conversation_inv []"
    by (simp add: conversation_inv_def)
  have c: "conversation_inv (clear ms)"
    by (simp add: clear_def conversation_inv_def)
  have k: "list_ex is_system ms \<longrightarrow> ensure_system_prompt ms = ms"
    by (simp add: ensure_system_prompt_def)
  have i: "Clear \<notin> set as \<longrightarrow> insertions ms as \<le> 1"
    using one_insertion_without_clear [of as ms] by blast
  have p: "conversation_inv ms \<longrightarrow>
        conversation_inv (ensure_system_prompt ms)
        \<and> conversation_inv (append_message User c ms)
        \<and> conversation_inv (append_message Assistant c ms)
        \<and> conversation_inv (messages (submit w s ms))"
    by (simp add: inv_ensure_system_prompt inv_append_message inv_submit)
  from e c k i p show ?thesis
    by blast
qed

theorem conversation_inv_preserved_witness:
  "conversation_inv
     (ensure_system_prompt [\<lparr>role = User, content = PStr ''Hi''\<rparr>])
   \<and> conversation_inv
     (messages (submit
        (example_env (Inl (OtherError ''no audio'')) (Inr (completion ''To be''))
           (Inl (OtherError ''speech service down'')))
        \<lparr>api_key = ''sk-test'', user_question = ''Who is Hamlet?'', voice_file = None,
         voice_style = ''Aged Shakespeare''\<rparr>
        [\<lparr>role = User, content = PStr ''Hi''\<rparr>]))
   \<and> insertions [\<lparr>role = User, content = PStr ''Hi''\<rparr>]
       [Submit (example_env (Inl (OtherError ''no audio'')) (Inr (completion ''To be''))
                  (Inl (OtherError ''speech service down'')))
          \<lparr>api_key = ''sk-test'', user_question = ''Who is Hamlet?'', voice_file = None,
           voice_style = ''Aged Shakespeare''\<rparr>,
        Submit (example_env (Inl (OtherError ''no audio'')) (Inr (completion ''To be''))
                  (Inl (OtherError ''speech service down'')))
          \<lparr>api_key = ''sk-test'', user_question = ''Who is Hamlet?'', voice_file = None,
           voice_style = ''Aged Shakespeare''\<rparr>]
     \<le> 1"
proof -
  let ?w = "example_env (Inl (OtherError ''no audio'')) (Inr (completion ''To be''))
           (Inl (OtherError ''speech service down''))"
  let ?s = "\<lparr>api_key = ''sk-test'', user_question = ''Who is Hamlet?'', voice_file = None,
         voice_style = ''Aged Shakespeare''\<rparr>"
  let ?ms = "[\<lparr>role = User, content = PStr ''Hi''\<rparr>]"
  have h: "conversation_inv ?ms"
    by (simp add: conversation_inv_def is_system_def)
  have n: "Clear \<notin> set [Submit ?w ?s, Submit ?w ?s]"
    by simp
  from conversation_inv_preserved [of ?ms "PNone" ?w ?s "[Submit ?w ?s, Submit ?w ?s]"] h n
  show ?thesis by blast
qed

text \<open>
  Claim C9 as stated fails: the system prompt is inserted twice in the session that submits,
  clears and submits again.
\<close>

theorem repeated_insertion_counterexample:
  "insertions []
     [Submit (example_env (Inl (OtherError ''no audio'')) (Inl (OtherError ''rate limit reached''))
                (Inl (OtherError ''speech service down'')))
        \<lparr>api_key = ''sk-test'', user_question = ''Who is Hamlet?'', voice_file = None,
         voice_style = ''Aged Shakespeare''\<rparr>,
      Clear,
      Submit (example_env (Inl (OtherError ''no audio'')) (Inl (OtherError ''rate limit reached''))
                (Inl (OtherError ''speech service down'')))
        \<lparr>api_key = ''sk-test'', user_question = ''Who is Hamlet?'', voice_file = None,
         voice_style = ''Aged Shakespeare''\<rparr>]
   = 2"
  by (simp add: submit_def key_rejected_def startswith_def question_step_def
        typed_question_def or_str_def strip_def isspace_def and_then_def
        example_env_def emit_def issue_def chat_step_def Let_def ensure_system_prompt_def
        append_message_def request_failed_def clear_def is_system_def)

end
